theory Spec2Isabelle
  imports Complex_Main "HOL-Library.Sublist" "HOL-Library.Multiset"
begin

section \<open>The table held by the dashboard\<close>

text \<open>
  \<^verbatim>\<open>app.py\<close> loads one CSV into a pandas frame \<^verbatim>\<open>pdf\<close> and hands it to Spark as
  \<^verbatim>\<open>df = spark.createDataFrame(pdf)\<close>; every view queries \<^verbatim>\<open>df\<close> (the Dashboard
  preview reads \<^verbatim>\<open>pdf\<close>). Both frames hold the same rows in the same order under the same
  column names, so one value of type \<open>dataset\<close> stands for both.

  A cell of the frame is SQL null, a string or a double, and a double is a finite number
  or not-a-number. A cell that the CSV leaves empty is not null in the frame:
  \<^verbatim>\<open>pd.read_csv\<close> reads it as NaN and \<^verbatim>\<open>createDataFrame\<close> keeps it, as the double NaN
  in a numeric column and as the string \<^verbatim>\<open>NaN\<close> in a string column. Null is what the
  frame holds for an integer outside the 64-bit range, and what a cast yields for a string
  that is no number. A finite double is given by the rational it denotes; comparing two of
  them is exact, adding and dividing them is not, and the engine's addition and division
  are parameters of the model (see \<open>engine\<close> below). A row is what \<^verbatim>\<open>pyspark.sql.Row\<close>
  is, an ordered list of named cells. Column names are matched as the script writes them;
  a header that differs from them only in letter case is outside the model.
\<close>

datatype dbl = Fin rat | NaN

datatype val = Null | Str string | Num dbl

type_synonym row = "(string \<times> val) list"

record dataset =
  columns :: "string list"
  rows :: "row list"

text \<open>
  Every row of a frame carries exactly the frame's columns. The lookup of a column the row
  does not carry is never taken on such a table; it reads as null.
\<close>

definition wf_dataset :: "dataset \<Rightarrow> bool" where
  "wf_dataset df = (distinct (columns df) \<and> list_all (\<lambda>r. map fst r = columns df) (rows df))"

definition cell :: "row \<Rightarrow> string \<Rightarrow> val" where
  "cell r c = (case map_of r c of Some v \<Rightarrow> v | None \<Rightarrow> Null)"

text \<open>
  What the model takes from the engine without computing it: the text of a finite double
  (\<^verbatim>\<open>CAST(x AS STRING)\<close>), the double a string is cast to (\<open>None\<close> is null), and the
  rounded sum of two finite doubles and quotient of a finite double by a count.
\<close>

record engine =
  show_d :: "rat \<Rightarrow> string"
  parse_d :: "string \<Rightarrow> dbl option"
  add_d :: "rat \<Rightarrow> rat \<Rightarrow> rat"
  div_d :: "rat \<Rightarrow> nat \<Rightarrow> rat"

text \<open>
  What a script run can raise. \<open>ColumnNotFound\<close> is Spark's analysis error for a column
  name the frame does not have, \<open>AmbiguousReference\<close> its error for a name that two
  columns of the frame carry, \<open>InvalidLikePattern\<close> its error for a malformed LIKE
  pattern, \<open>FormatTypeError\<close> Python's \<^verbatim>\<open>TypeError\<close> when a format specification
  such as \<^verbatim>\<open>.2f\<close> is applied to \<^verbatim>\<open>None\<close>.
\<close>

datatype error =
    ColumnNotFound string
  | AmbiguousReference string
  | InvalidLikePattern
  | FormatTypeError

text \<open>
  What a view puts on the page, in the order of the \<^verbatim>\<open>st.*\<close> calls. Labels and
  messages are given without the emoji that decorate them in the source. A metric shows a
  string, an integer, or a number rendered by the format \<^verbatim>\<open>.2f\<close> (kept symbolic as
  \<open>Fixed2\<close>).
\<close>

datatype mvalue = MStr string | MInt nat | Fixed2 rat

datatype widget =
    Title string
  | Subheader string
  | Dataframe "string list" "row list"
  | Columns nat
  | Metric string mvalue
  | TextInput string
  | TextArea string
  | Button string
  | Write string
  | Success string
  | Warning string

text \<open>
  Streamlit runs the script top to bottom; an exception that escapes stops the run, and
  what was rendered before it stays on the page. A view is therefore a pair: the widgets
  rendered, and the exception that ended the run, if any.
\<close>

type_synonym page = "widget list \<times> error option"


section \<open>Search: \<^verbatim>\<open>col.like\<close>\<close>

text \<open>
  \<^verbatim>\<open>col("title").like(f"%{search}%")\<close> is SQL LIKE with Spark's default escape character,
  the backslash. Spark reads the pattern left to right: an escape followed by \<open>_\<close>,
  \<open>%\<close> or another escape stands for that character; an escape before anything else, or
  at the end, is an error; a bare \<open>_\<close> matches any one character, a bare \<open>%\<close> any run
  of characters, every other character itself. The pattern must match the whole string.
\<close>

datatype like_tok = AnyString | AnyChar | Lit char

definition esc :: char where
  "esc = CHR 0x5C"

fun escapeLikeRegex :: "string \<Rightarrow> like_tok list option" where
  "escapeLikeRegex [] = Some []"
| "escapeLikeRegex (c # cs) =
     (if c = esc then
        (case cs of
           [] \<Rightarrow> None
         | d # ds \<Rightarrow>
             if d = CHR ''_'' \<or> d = CHR ''%'' \<or> d = esc
             then map_option ((#) (Lit d)) (escapeLikeRegex ds)
             else None)
      else if c = CHR ''_'' then map_option ((#) AnyChar) (escapeLikeRegex cs)
      else if c = CHR ''%'' then map_option ((#) AnyString) (escapeLikeRegex cs)
      else map_option ((#) (Lit c)) (escapeLikeRegex cs))"

fun like_match :: "like_tok list \<Rightarrow> string \<Rightarrow> bool" where
  "like_match [] s = (s = [])"
| "like_match (Lit c # ts) s =
     (case s of [] \<Rightarrow> False | d # ds \<Rightarrow> c = d \<and> like_match ts ds)"
| "like_match (AnyChar # ts) s =
     (case s of [] \<Rightarrow> False | d # ds \<Rightarrow> like_match ts ds)"
| "like_match (AnyString # ts) s =
     (like_match ts s \<or> (case s of [] \<Rightarrow> False | d # ds \<Rightarrow> like_match (AnyString # ts) ds))"

text \<open>
  LIKE wants a string. A string cell is taken as it is; a numeric cell is first cast to a
  string by the engine, and the text of NaN is \<^verbatim>\<open>NaN\<close>. A null cell has no string
  value, and LIKE on it is null.
\<close>

fun str_value :: "engine \<Rightarrow> val \<Rightarrow> string option" where
  "str_value E Null = None"
| "str_value E (Str s) = Some s"
| "str_value E (Num (Fin x)) = Some (show_d E x)"
| "str_value E (Num NaN) = Some ''NaN''"

definition col_like :: "engine \<Rightarrow> like_tok list \<Rightarrow> val \<Rightarrow> bool option" where
  "col_like E p v = map_option (like_match p) (str_value E v)"

text \<open>The operator \<^verbatim>\<open>|\<close> on columns is SQL's three-valued OR; \<open>None\<close> is null.\<close>

fun or3 :: "bool option \<Rightarrow> bool option \<Rightarrow> bool option" where
  "or3 (Some True) _ = Some True"
| "or3 _ (Some True) = Some True"
| "or3 (Some False) (Some False) = Some False"
| "or3 _ _ = None"

definition like_pattern :: "string \<Rightarrow> string" where
  "like_pattern search = CHR ''%'' # search @ [CHR ''%'']"

text \<open>
  \<^verbatim>\<open>df.filter(col("title").like(p) | col("authors").like(p))\<close>: both columns are resolved
  against the frame, the pattern is compiled, and the rows on which the condition is true
  (not false, not null) are kept in their order.
\<close>

definition filterContains :: "engine \<Rightarrow> dataset \<Rightarrow> string \<Rightarrow> error + row list" where
  "filterContains E df search =
     (if ''title'' \<notin> set (columns df) then Inl (ColumnNotFound ''title'')
      else if ''authors'' \<notin> set (columns df) then Inl (ColumnNotFound ''authors'')
      else
        (case escapeLikeRegex (like_pattern search) of
           None \<Rightarrow> Inl InvalidLikePattern
         | Some p \<Rightarrow>
             Inr (filter
                   (\<lambda>r. or3 (col_like E p (cell r ''title''))
                             (col_like E p (cell r ''authors'')) = Some True)
                   (rows df))))"

text \<open>
  The Search view. The query runs only for a non-empty term (\<^verbatim>\<open>if search:\<close>).
  \<^verbatim>\<open>df.filter\<close> resolves the columns at once, so a missing column ends the run before
  the caption is written; the pattern is compiled when \<^verbatim>\<open>toPandas\<close> runs the query,
  after the caption. At most 20 rows are shown.
\<close>

definition search_view :: "engine \<Rightarrow> dataset \<Rightarrow> string \<Rightarrow> page" where
  "search_view E df search =
     (let ui = [Title ''Search Books by Name or Author'',
                TextInput ''Enter book title or author name:''];
          caption = Write (''Results for: **'' @ search @ ''**'')
      in if search \<noteq> [] then
           (case filterContains E df search of
              Inl (ColumnNotFound c) \<Rightarrow> (ui, Some (ColumnNotFound c))
            | Inl e \<Rightarrow> (ui @ [caption], Some e)
            | Inr results \<Rightarrow>
                (ui @ [caption, Dataframe (columns df) (take 20 results)], None))
         else (ui, None))"

text \<open>
  The reading of the specification, written on the row itself and not through the
  functions above: the string value that a row has in a column, and the term occurring in
  it as a contiguous sublist, character for character.
\<close>

definition text_at :: "engine \<Rightarrow> row \<Rightarrow> string \<Rightarrow> string option" where
  "text_at E r c =
     (case map_of r c of
        Some (Str t) \<Rightarrow> Some t
      | Some (Num (Fin x)) \<Rightarrow> Some (show_d E x)
      | Some (Num NaN) \<Rightarrow> Some ''NaN''
      | _ \<Rightarrow> None)"

definition occurs_in :: "engine \<Rightarrow> string \<Rightarrow> row \<Rightarrow> string \<Rightarrow> bool" where
  "occurs_in E s r c = (case text_at E r c of None \<Rightarrow> False | Some t \<Rightarrow> sublist s t)"

definition plain_term :: "string \<Rightarrow> bool" where
  "plain_term s = list_all (\<lambda>c. c \<noteq> CHR ''%'' \<and> c \<noteq> CHR ''_'' \<and> c \<noteq> esc) s"

definition rows_containing :: "engine \<Rightarrow> string \<Rightarrow> dataset \<Rightarrow> row list" where
  "rows_containing E s df =
     filter (\<lambda>r. occurs_in E s r ''title'' \<or> occurs_in E s r ''authors'') (rows df)"



section \<open>Dashboard: \<^verbatim>\<open>avg\<close>, \<^verbatim>\<open>count\<close>, \<^verbatim>\<open>distinct\<close>\<close>

text \<open>
  \<^verbatim>\<open>avg\<close> wants a number. A numeric cell is taken as it is, NaN included; a string cell
  is first cast to a double by the engine, null where the string is no number.
\<close>

fun num_value :: "engine \<Rightarrow> val \<Rightarrow> dbl option" where
  "num_value E Null = None"
| "num_value E (Num d) = Some d"
| "num_value E (Str s) = parse_d E s"

text \<open>Double arithmetic: NaN absorbs, finite operands go to the engine.\<close>

fun dadd :: "engine \<Rightarrow> dbl \<Rightarrow> dbl \<Rightarrow> dbl" where
  "dadd E (Fin a) (Fin b) = Fin (add_d E a b)"
| "dadd E a b = NaN"

fun ddiv :: "engine \<Rightarrow> dbl \<Rightarrow> nat \<Rightarrow> dbl" where
  "ddiv E (Fin a) n = Fin (div_d E a n)"
| "ddiv E NaN n = NaN"

text \<open>
  Spark's \<^verbatim>\<open>avg\<close> is an aggregate over a buffer of a running sum and a running count:
  a null input leaves the buffer as it is, any other input, NaN too, adds to both, and the
  result is null for a count of zero and the quotient otherwise.
\<close>

definition avg_update :: "engine \<Rightarrow> dbl \<times> nat \<Rightarrow> dbl option \<Rightarrow> dbl \<times> nat" where
  "avg_update E b v = (case v of None \<Rightarrow> b | Some d \<Rightarrow> (dadd E (fst b) d, Suc (snd b)))"

definition avg_eval :: "engine \<Rightarrow> dbl \<times> nat \<Rightarrow> dbl option" where
  "avg_eval E b = (if snd b = 0 then None else Some (ddiv E (fst b) (snd b)))"

text \<open>\<^verbatim>\<open>df.select(avg(col(c))).collect()[0][0]\<close>\<close>

definition average :: "engine \<Rightarrow> dataset \<Rightarrow> string \<Rightarrow> error + dbl option" where
  "average E df c =
     (if c \<notin> set (columns df) then Inl (ColumnNotFound c)
      else Inr (avg_eval E (foldl (avg_update E) (Fin 0, 0)
                  (map (\<lambda>r. num_value E (cell r c)) (rows df)))))"

text \<open>\<^verbatim>\<open>df.count()\<close>\<close>

definition count_rows :: "dataset \<Rightarrow> nat" where
  "count_rows df = length (rows df)"

text \<open>
  \<^verbatim>\<open>df.select(c).distinct().count()\<close>: the number of different cells of the column; null
  is one of them when it occurs, and so is NaN.
\<close>

definition distinctCount :: "dataset \<Rightarrow> string \<Rightarrow> error + nat" where
  "distinctCount df c =
     (if c \<notin> set (columns df) then Inl (ColumnNotFound c)
      else Inr (length (remdups (map (\<lambda>r. cell r c) (rows df)))))"

text \<open>
  \<^verbatim>\<open>df.select(count(col(c))).collect()[0][0]\<close>: the number of cells that are not null. A
  NaN cell is not null and is counted.
\<close>

definition count_col :: "dataset \<Rightarrow> string \<Rightarrow> error + nat" where
  "count_col df c =
     (if c \<notin> set (columns df) then Inl (ColumnNotFound c)
      else Inr (length (filter (\<lambda>r. cell r c \<noteq> Null) (rows df))))"

text \<open>
  \<^verbatim>\<open>bestseller_count\<close> is a Python integer or the string \<^verbatim>\<open>"N/A"\<close>, and \<^verbatim>\<open>str\<close> prints
  an integer in decimal.
\<close>

datatype pyval = PInt nat | PStr string

definition digit :: "nat \<Rightarrow> char" where
  "digit n = ''0123456789'' ! (n mod 10)"

function str_nat :: "nat \<Rightarrow> string" where
  "str_nat n = (if n < 10 then [digit n] else str_nat (n div 10) @ [digit n])"
  by pat_completeness auto
termination
  by (relation "measure id") auto

declare str_nat.simps [simp del]

fun py_str :: "pyval \<Rightarrow> string" where
  "py_str (PInt n) = str_nat n"
| "py_str (PStr s) = s"

text \<open>
  The f-string \<^verbatim>\<open>f"{avg_rating:.2f}"\<close> on a float: a finite number with two decimals,
  and NaN as the text \<^verbatim>\<open>nan\<close>.
\<close>

fun fmt2 :: "dbl \<Rightarrow> mvalue" where
  "fmt2 (Fin x) = Fixed2 x"
| "fmt2 NaN = MStr ''nan''"

text \<open>
  The script goes on to the views only with a frame that is not empty
  (\<^verbatim>\<open>if not pdf.empty\<close>, else \<^verbatim>\<open>st.stop()\<close>); pandas calls a frame empty when it has no
  row or no column.
\<close>

definition loaded :: "dataset \<Rightarrow> bool" where
  "loaded df = (rows df \<noteq> [] \<and> columns df \<noteq> [])"

text \<open>
  The Dashboard view, lines 68 to 85. The preview is rendered first. The statistics are
  then computed one after the other with nothing to catch an exception, so the first that
  fails ends the run. The f-string \<^verbatim>\<open>f"{avg_rating:.2f}"\<close> raises on \<^verbatim>\<open>None\<close>. The
  number of distinct authors is computed and then not shown.
\<close>

definition dashboard :: "engine \<Rightarrow> dataset \<Rightarrow> page" where
  "dashboard E df =
     (let out = [Title ''Book Ratings Dashboard'',
                 Subheader ''Dataset Preview'',
                 Dataframe (columns df) (take 10 (rows df)),
                 Subheader ''Summary Statistics'']
      in case average E df ''average_rating'' of
           Inl e \<Rightarrow> (out, Some e)
         | Inr avg_rating \<Rightarrow>
             let total_books = count_rows df
             in case distinctCount df ''authors'' of
                  Inl e \<Rightarrow> (out, Some e)
                | Inr total_authors \<Rightarrow>
                    let bestseller_col =
                          (if ''ratings_count'' \<in> set (columns df)
                           then Some ''ratings_count'' else None)
                    in case (case bestseller_col of
                               Some c \<Rightarrow> map_sum id PInt (count_col df c)
                             | None \<Rightarrow> Inr (PStr ''N/A'')) of
                         Inl e \<Rightarrow> (out, Some e)
                       | Inr bestseller_count \<Rightarrow>
                           (case avg_rating of
                              None \<Rightarrow> (out @ [Columns 3], Some FormatTypeError)
                            | Some a \<Rightarrow>
                                (out @ [Columns 3,
                                        Metric ''Average Rating'' (fmt2 a),
                                        Metric ''Total Books'' (MInt total_books),
                                        Metric ''Bestsellers'' (MStr (py_str bestseller_count))],
                                 None)))"

fun is_metric :: "widget \<Rightarrow> bool" where
  "is_metric (Metric l v) = True"
| "is_metric w = False"

text \<open>
  The reading of the specification, again written on the rows themselves. The numeric
  readings of a column, in row order: the double of a numeric cell, the double a string
  cell is cast to, nothing for a null cell or a string that is no number. Their mean: none
  for no reading, NaN as soon as one reading is NaN, and otherwise the engine's sum of them
  divided by their number, which is their arithmetic mean when the engine's arithmetic is
  exact.
\<close>

definition readings :: "engine \<Rightarrow> string \<Rightarrow> row list \<Rightarrow> dbl list" where
  "readings E c rs =
     concat (map (\<lambda>r. case map_of r c of
                         Some (Num d) \<Rightarrow> [d]
                       | Some (Str s) \<Rightarrow> (case parse_d E s of Some d \<Rightarrow> [d] | None \<Rightarrow> [])
                       | _ \<Rightarrow> []) rs)"

fun numbers :: "dbl list \<Rightarrow> rat list" where
  "numbers [] = []"
| "numbers (Fin x # ds) = x # numbers ds"
| "numbers (NaN # ds) = numbers ds"

definition mean_of :: "engine \<Rightarrow> dbl list \<Rightarrow> dbl option" where
  "mean_of E ds =
     (if ds = [] then None
      else if NaN \<in> set ds then Some NaN
      else Some (Fin (div_d E (foldl (add_d E) 0 (numbers ds)) (length ds))))"

definition exact_arithmetic :: "engine \<Rightarrow> bool" where
  "exact_arithmetic E =
     ((\<forall>a b. add_d E a b = a + b) \<and> (\<forall>s n. div_d E s n = s / of_nat n))"

text \<open>The cells of a column that are not null, counted on the rows themselves.\<close>

definition held :: "dataset \<Rightarrow> string \<Rightarrow> nat" where
  "held df c =
     length (filter (\<lambda>r. case map_of r c of Some Null \<Rightarrow> False | Some v \<Rightarrow> True | None \<Rightarrow> False)
               (rows df))"

text \<open>
  The cells of a column that hold a value the CSV gave: neither null nor NaN, which is
  what an empty cell of a numeric column becomes.
\<close>

definition present :: "dataset \<Rightarrow> string \<Rightarrow> nat" where
  "present df c =
     length (filter (\<lambda>r. case map_of r c of
                            Some Null \<Rightarrow> False | Some (Num NaN) \<Rightarrow> False
                          | Some v \<Rightarrow> True | None \<Rightarrow> False)
               (rows df))"


section \<open>Feedback\<close>

text \<open>
  Lines 160 to 169. Python takes a string for true when it is not empty. Nothing is shown
  until the button is pressed, and the view keeps nothing: its whole effect is the page.
\<close>

definition feedback_view :: "string \<Rightarrow> string \<Rightarrow> bool \<Rightarrow> page" where
  "feedback_view name feedback submit =
     (let ui = [Title ''Feedback Form'', TextInput ''Your Name'',
                TextArea ''Your Feedback'', Button ''Submit'']
      in if submit then
           (if name \<noteq> [] \<and> feedback \<noteq> []
            then (ui @ [Success ''Thank you for your feedback! ''], None)
            else (ui @ [Warning ''Please fill in all fields.''], None))
         else (ui, None))"


section \<open>Top Rated Books: \<^verbatim>\<open>orderBy(desc(c)).limit(k)\<close>\<close>

text \<open>
  The order of cells under \<^verbatim>\<open>orderBy\<close>: null is the least value (so it comes last under
  \<^verbatim>\<open>desc\<close>), NaN is greater than every number (so it comes first under \<^verbatim>\<open>desc\<close>),
  numbers go by size and strings by their characters. A column of a frame has one type, so
  a number never meets a string; the model puts strings below numbers.
\<close>

fun str_le :: "string \<Rightarrow> string \<Rightarrow> bool" where
  "str_le [] t = True"
| "str_le (c # s) [] = False"
| "str_le (c # s) (d # t) =
     (of_char c < (of_char d :: nat) \<or> (of_char c = (of_char d :: nat) \<and> str_le s t))"

fun dbl_le :: "dbl \<Rightarrow> dbl \<Rightarrow> bool" where
  "dbl_le d NaN = True"
| "dbl_le NaN (Fin y) = False"
| "dbl_le (Fin x) (Fin y) = (x \<le> y)"

fun val_le :: "val \<Rightarrow> val \<Rightarrow> bool" where
  "val_le Null w = True"
| "val_le (Str s) Null = False"
| "val_le (Str s) (Str t) = str_le s t"
| "val_le (Str s) (Num e) = True"
| "val_le (Num d) (Num e) = dbl_le d e"
| "val_le (Num d) w = False"

text \<open>
  Spark sorts the partitions of a frame and merges them, and promises nothing about the
  order of rows whose sort keys are equal. The model makes that freedom a parameter:
  \<open>arrival\<close> is the order in which the engine hands the rows to the sort, any
  rearrangement of them, and the sort itself then keeps rows of equal key in the order of
  their arrival.
\<close>

fun insert_desc :: "string \<Rightarrow> row \<Rightarrow> row list \<Rightarrow> row list" where
  "insert_desc c x [] = [x]"
| "insert_desc c x (y # ys) =
     (if val_le (cell y c) (cell x c) then x # y # ys else y # insert_desc c x ys)"

definition sort_desc :: "string \<Rightarrow> row list \<Rightarrow> row list" where
  "sort_desc c xs = foldr (insert_desc c) xs []"

definition orderByDescending ::
    "(row list \<Rightarrow> row list) \<Rightarrow> dataset \<Rightarrow> string \<Rightarrow> nat \<Rightarrow> error + row list" where
  "orderByDescending arrival df c k =
     (if c \<notin> set (columns df) then Inl (ColumnNotFound c)
      else Inr (take k (sort_desc c (arrival (rows df)))))"

text \<open>
  The reading of the specification, written on the rows themselves: the value a row has in
  a column, a list of rows in descending order of a column, and the rows of a list that
  have a given value in a column.
\<close>

definition value_at :: "row \<Rightarrow> string \<Rightarrow> val" where
  "value_at r c = (case map_of r c of None \<Rightarrow> Null | Some v \<Rightarrow> v)"

definition descending :: "string \<Rightarrow> row list \<Rightarrow> bool" where
  "descending c xs = sorted_wrt (\<lambda>a b. val_le (value_at b c) (value_at a c)) xs"

definition with_key :: "string \<Rightarrow> val \<Rightarrow> row list \<Rightarrow> row list" where
  "with_key c v xs = filter (\<lambda>r. value_at r c = v) xs"


section \<open>Insights: \<^verbatim>\<open>groupBy(c).agg(count("*"))\<close>\<close>

text \<open>
  One group for every different cell of the column, null and NaN among them, each with the
  number of its rows. The grouped frame has the grouping column and the column
  \<^verbatim>\<open>book_count\<close>; it is then ordered by \<^verbatim>\<open>desc("book_count")\<close> and cut to the limit.
  Grouping by a column that is itself called \<^verbatim>\<open>book_count\<close> gives the grouped frame two
  columns of that name, and the ordering fails on the ambiguous name.
\<close>

fun bump :: "val \<Rightarrow> (val \<times> nat) list \<Rightarrow> (val \<times> nat) list" where
  "bump v [] = [(v, 1)]"
| "bump v ((k, n) # gs) = (if k = v then (k, Suc n) # gs else (k, n) # bump v gs)"

definition groupCount :: "row list \<Rightarrow> string \<Rightarrow> (val \<times> nat) list" where
  "groupCount xs c = foldl (\<lambda>gs r. bump (cell r c) gs) [] xs"

definition group_row :: "string \<Rightarrow> val \<times> nat \<Rightarrow> row" where
  "group_row c g = [(c, fst g), (''book_count'', Num (Fin (of_nat (snd g))))]"

definition groupBy_count :: "dataset \<Rightarrow> string \<Rightarrow> error + dataset" where
  "groupBy_count df c =
     (if c \<notin> set (columns df) then Inl (ColumnNotFound c)
      else Inr \<lparr>columns = [c, ''book_count''],
                rows = map (group_row c) (groupCount (rows df) c)\<rparr>)"

definition groupCountTop ::
    "(row list \<Rightarrow> row list) \<Rightarrow> dataset \<Rightarrow> string \<Rightarrow> nat \<Rightarrow> error + row list" where
  "groupCountTop arrival df c k =
     (case groupBy_count df c of
        Inl e \<Rightarrow> Inl e
      | Inr grouped \<Rightarrow>
          if c = ''book_count'' then Inl (AmbiguousReference ''book_count'')
          else orderByDescending arrival grouped ''book_count'' k)"


section \<open>Sample tables\<close>

text \<open>
  Frames as the script gets them from small CSV files. An empty cell of a numeric column
  is NaN, an empty cell of a string column the string \<^verbatim>\<open>NaN\<close>, and a column left empty
  in every row is a numeric column. No title or author of these tables is a finite
  number, and their only string rating is no number, so \<open>sample_engine\<close> gives no text
  to a number and casts every string to null; its arithmetic is exact, as double arithmetic
  is on the halves and small integers of these tables.
\<close>

definition sample_engine :: engine where
  "sample_engine =
     \<lparr>show_d = (\<lambda>x. []), parse_d = (\<lambda>s. None),
      add_d = (\<lambda>a b. a + b), div_d = (\<lambda>s n. s / of_nat n)\<rparr>"

definition book :: "string \<Rightarrow> string \<Rightarrow> val \<Rightarrow> row" where
  "book t a r = [(''title'', Str t), (''authors'', Str a), (''average_rating'', r)]"

text \<open>The three books of the specification's scenario.\<close>

definition books3 :: dataset where
  "books3 = \<lparr>columns = [''title'', ''authors'', ''average_rating''],
             rows = [book ''A'' ''X'' (Num (Fin (9 / 2))), book ''B'' ''Y'' (Num (Fin (9 / 2))),
                     book ''C'' ''X'' (Num (Fin 3))]\<rparr>"

text \<open>Three books, the second with an empty rating.\<close>

definition gap_rated :: dataset where
  "gap_rated = \<lparr>columns = [''title'', ''authors'', ''average_rating''],
                rows = [book ''A'' ''X'' (Num (Fin 3)), book ''B'' ''Y'' (Num NaN),
                        book ''C'' ''X'' (Num (Fin (9 / 2)))]\<rparr>"

text \<open>One book with an empty rating.\<close>

definition unrated :: dataset where
  "unrated = \<lparr>columns = [''title'', ''authors'', ''average_rating''],
              rows = [book ''A'' ''X'' (Num NaN)]\<rparr>"

text \<open>One book whose rating is the word abc.\<close>

definition worded :: dataset where
  "worded = \<lparr>columns = [''title'', ''authors'', ''average_rating''],
             rows = [book ''A'' ''X'' (Str ''abc'')]\<rparr>"

definition only_rating_column :: dataset where
  "only_rating_column =
     \<lparr>columns = [''average_rating''], rows = [[(''average_rating'', Str ''abc'')]]\<rparr>"

definition no_rating_column :: dataset where
  "no_rating_column = \<lparr>columns = [''title'', ''authors''],
                       rows = [[(''title'', Str ''A''), (''authors'', Str ''X'')]]\<rparr>"

definition two_authors :: dataset where
  "two_authors = \<lparr>columns = [''title'', ''authors''],
                  rows = [[(''title'', Str ''A''), (''authors'', Str ''X'')],
                          [(''title'', Str ''B''), (''authors'', Str ''Y'')]]\<rparr>"

text \<open>One book by X and three by Y.\<close>

definition one_three :: dataset where
  "one_three = \<lparr>columns = [''title'', ''authors''],
                rows = [[(''title'', Str ''A''), (''authors'', Str ''X'')],
                        [(''title'', Str ''B''), (''authors'', Str ''Y'')],
                        [(''title'', Str ''C''), (''authors'', Str ''Y'')],
                        [(''title'', Str ''D''), (''authors'', Str ''Y'')]]\<rparr>"

text \<open>Two books, the second with an empty author.\<close>

definition missing_author :: dataset where
  "missing_author = \<lparr>columns = [''title'', ''authors''],
                     rows = [[(''title'', Str ''A''), (''authors'', Str ''X'')],
                             [(''title'', Str ''B''), (''authors'', Str ''NaN'')]]\<rparr>"

text \<open>Two books, the second with an empty rating and an empty ratings count.\<close>

definition with_counts :: dataset where
  "with_counts = \<lparr>columns = [''title'', ''authors'', ''average_rating'', ''ratings_count''],
                  rows = [book ''A'' ''X'' (Num (Fin (9 / 2))) @ [(''ratings_count'', Num (Fin 12))],
                          book ''B'' ''Y'' (Num NaN) @ [(''ratings_count'', Num NaN)]]\<rparr>"

text \<open>One row, title and author both empty.\<close>

definition anonymous :: dataset where
  "anonymous = \<lparr>columns = [''title'', ''authors''],
                rows = [[(''title'', Num NaN), (''authors'', Num NaN)]]\<rparr>"


section \<open>Facts about LIKE\<close>

lemma escapeLikeRegex_plain:
  "plain_term s \<Longrightarrow>
   escapeLikeRegex (s @ t) =
     (case escapeLikeRegex t of None \<Rightarrow> None | Some p \<Rightarrow> Some (map Lit s @ p))"
  by (induction s) (auto simp: plain_term_def split: option.splits)

lemma escapeLikeRegex_wrapped:
  "plain_term s \<Longrightarrow> escapeLikeRegex (like_pattern s) = Some (AnyString # map Lit s @ [AnyString])"
  by (simp add: like_pattern_def escapeLikeRegex_plain esc_def)

lemma like_match_any: "like_match [AnyString] t"
  by (induction t) auto

lemma or3_true: "or3 a b = Some True \<longleftrightarrow> a = Some True \<or> b = Some True"
  by (induction a b rule: or3.induct) auto

lemma like_match_prefix: "like_match (map Lit s @ [AnyString]) t = prefix s t"
proof (induction s arbitrary: t)
  case Nil
  show ?case using like_match_any [of t] by simp
next
  case (Cons c s)
  then show ?case by (cases t) auto
qed

lemma like_match_sublist: "like_match (AnyString # map Lit s @ [AnyString]) t = sublist s t"
proof (induction t)
  case Nil
  then show ?case by (cases s) (auto simp: like_match_prefix)
next
  case (Cons d t)
  then show ?case by (simp add: like_match_prefix sublist_Cons_right)
qed

lemma text_at_cell: "text_at E r c = str_value E (cell r c)"
  by (simp add: text_at_def cell_def split: option.splits val.splits dbl.splits)

lemma col_like_plain:
  "or3 (col_like E (AnyString # map Lit s @ [AnyString]) (cell r a))
       (col_like E (AnyString # map Lit s @ [AnyString]) (cell r b)) = Some True
   \<longleftrightarrow> occurs_in E s r a \<or> occurs_in E s r b"
proof -
  have one: "col_like E (AnyString # map Lit s @ [AnyString]) (cell r c) =
      (case text_at E r c of None \<Rightarrow> None | Some t \<Rightarrow> Some (sublist s t))" for c
    unfolding col_like_def text_at_cell using like_match_sublist
    by (cases "str_value E (cell r c)") auto
  show ?thesis
    unfolding or3_true one occurs_in_def
    by (cases "text_at E r a"; cases "text_at E r b") auto
qed





section \<open>Facts about the descending sort\<close>

lemma str_le_refl: "str_le s s"
  by (induction s) auto

lemma str_le_total: "str_le s t \<or> str_le t s"
  by (induction s t rule: str_le.induct) auto

lemma str_le_trans: "str_le s t \<Longrightarrow> str_le t u \<Longrightarrow> str_le s u"
proof (induction s t arbitrary: u rule: str_le.induct)
  case (1 t)
  then show ?case by simp
next
  case (2 c s)
  then show ?case by simp
next
  case (3 c s d t)
  then show ?case by (cases u) auto
qed

lemma dbl_le_refl: "dbl_le d d"
  by (cases d) auto

lemma dbl_le_total: "dbl_le d e \<or> dbl_le e d"
  by (cases d; cases e) auto

lemma dbl_le_trans: "dbl_le d e \<Longrightarrow> dbl_le e f \<Longrightarrow> dbl_le d f"
  by (cases d; cases e; cases f) auto

lemma val_le_refl: "val_le v v"
  by (cases v) (auto simp: str_le_refl dbl_le_refl)

lemma val_le_total: "val_le v w \<or> val_le w v"
  using str_le_total dbl_le_total by (cases v; cases w) auto

lemma val_le_trans: "val_le u v \<Longrightarrow> val_le v w \<Longrightarrow> val_le u w"
  by (cases u; cases v; cases w) (auto intro: str_le_trans dbl_le_trans)

lemma val_le_NaN: "val_le (Num NaN) v \<Longrightarrow> v = Num NaN"
proof (cases v)
  case (Num d)
  assume "val_le (Num NaN) v"
  with Num show ?thesis by (cases d) auto
qed auto

lemma value_at_cell: "value_at r c = cell r c"
  by (simp add: value_at_def cell_def split: option.splits)

lemma mset_insert_desc: "mset (insert_desc c x ys) = add_mset x (mset ys)"
  by (induction ys) auto

lemma set_insert_desc: "set (insert_desc c x ys) = insert x (set ys)"
  by (induction ys) auto

lemma descending_insert_desc:
  "descending c ys \<Longrightarrow> descending c (insert_desc c x ys)"
proof (induction ys)
  case Nil
  then show ?case by (simp add: descending_def)
next
  case (Cons y ys)
  show ?case
  proof (cases "val_le (cell y c) (cell x c)")
    case True
    then show ?thesis
      using Cons.prems by (auto simp: descending_def value_at_cell intro: val_le_trans)
  next
    case False
    then have "val_le (cell x c) (cell y c)"
      using val_le_total by blast
    then show ?thesis
      using False Cons by (auto simp: descending_def value_at_cell set_insert_desc)
  qed
qed

lemma mset_sort_desc: "mset (sort_desc c xs) = mset xs"
  by (induction xs) (auto simp: sort_desc_def mset_insert_desc)

lemma descending_sort_desc: "descending c (sort_desc c xs)"
proof (induction xs)
  case Nil
  then show ?case by (simp add: sort_desc_def descending_def)
next
  case (Cons x xs)
  then show ?case using descending_insert_desc by (simp add: sort_desc_def)
qed

lemma with_key_insert_desc:
  "with_key c v (insert_desc c x ys) =
     (if value_at x c = v then x # with_key c v ys else with_key c v ys)"
  by (induction ys) (auto simp: with_key_def value_at_cell val_le_refl)

lemma with_key_sort_desc: "with_key c v (sort_desc c xs) = with_key c v xs"
proof (induction xs)
  case Nil
  then show ?case by (simp add: sort_desc_def)
next
  case (Cons x xs)
  have "sort_desc c (x # xs) = insert_desc c x (sort_desc c xs)"
    by (simp add: sort_desc_def)
  then show ?case using Cons by (simp add: with_key_insert_desc) (simp add: with_key_def)
qed

lemma with_key_take: "prefix (with_key c v (take k xs)) (with_key c v xs)"
  unfolding with_key_def by (metis append_take_drop_id filter_append prefixI)

lemma descending_take: "descending c xs \<Longrightarrow> descending c (take k xs)"
  unfolding descending_def by (metis append_take_drop_id sorted_wrt_append)

lemma descending_NaN_first:
  assumes "descending c xs" and "i < j" and "j < length xs" and "value_at (xs ! j) c = Num NaN"
  shows "value_at (xs ! i) c = Num NaN"
proof -
  have "val_le (value_at (xs ! j) c) (value_at (xs ! i) c)"
    using assms(1-3) by (simp add: descending_def sorted_wrt_iff_nth_less)
  then show ?thesis using assms(4) val_le_NaN by simp
qed


section \<open>Facts about the average\<close>

lemma foldl_dadd_NaN: "foldl (dadd E) NaN ds = NaN"
  by (induction ds) auto

lemma foldl_dadd:
  "foldl (dadd E) (Fin a) ds =
     (if NaN \<in> set ds then NaN else Fin (foldl (add_d E) a (numbers ds)))"
proof (induction ds arbitrary: a)
  case Nil
  then show ?case by simp
next
  case (Cons d ds)
  then show ?case by (cases d) (auto simp: foldl_dadd_NaN)
qed

lemma foldl_avg_update:
  "foldl (avg_update E) (s, n) (map f rs) =
     (foldl (dadd E) s (concat (map (\<lambda>r. case f r of None \<Rightarrow> [] | Some d \<Rightarrow> [d]) rs)),
      n + length (concat (map (\<lambda>r. case f r of None \<Rightarrow> [] | Some d \<Rightarrow> [d]) rs)))"
proof (induction rs arbitrary: s n)
  case Nil
  then show ?case by simp
next
  case (Cons r rs)
  then show ?case by (cases "f r") (simp_all add: avg_update_def)
qed

lemma readings_cell:
  "readings E c rs =
     concat (map (\<lambda>r. case num_value E (cell r c) of None \<Rightarrow> [] | Some d \<Rightarrow> [d]) rs)"
proof -
  have "(case map_of r c of
           Some (Num d) \<Rightarrow> [d]
         | Some (Str s) \<Rightarrow> (case parse_d E s of Some d \<Rightarrow> [d] | None \<Rightarrow> [])
         | _ \<Rightarrow> [])
        = (case num_value E (cell r c) of None \<Rightarrow> [] | Some d \<Rightarrow> [d])" for r
    by (simp add: cell_def split: option.splits val.splits)
  then show ?thesis by (simp add: readings_def)
qed

lemma avg_eval_mean:
  "avg_eval E (foldl (dadd E) (Fin 0) ds, length ds) = mean_of E ds"
  by (cases ds) (simp_all add: avg_eval_def mean_of_def foldl_dadd del: foldl_Cons)

lemma average_in_schema:
  "c \<in> set (columns df) \<Longrightarrow> average E df c = Inr (mean_of E (readings E c (rows df)))"
  using foldl_avg_update [of E "Fin 0" 0 "\<lambda>r. num_value E (cell r c)" "rows df"]
  by (simp add: average_def readings_cell avg_eval_mean)

lemma foldl_exact:
  "\<forall>a b. add_d E a b = a + b \<Longrightarrow> foldl (add_d E) a xs = a + sum_list xs"
  by (induction xs arbitrary: a) (simp_all add: add.assoc)

lemma length_numbers: "NaN \<notin> set ds \<Longrightarrow> length (numbers ds) = length ds"
  by (induction ds rule: numbers.induct) auto

lemma mean_of_exact:
  assumes "exact_arithmetic E" and "ds \<noteq> []" and "NaN \<notin> set ds"
  shows "mean_of E ds = Some (Fin (sum_list (numbers ds) / of_nat (length (numbers ds))))"
  using assms foldl_exact [of E 0 "numbers ds"]
  by (simp add: mean_of_def exact_arithmetic_def length_numbers)

lemma mean_of_None: "mean_of E ds = None \<longleftrightarrow> ds = []"
  by (simp add: mean_of_def)

lemma held_cell: "held df c = length (filter (\<lambda>r. cell r c \<noteq> Null) (rows df))"
proof -
  have "(case map_of r c of Some Null \<Rightarrow> False | Some v \<Rightarrow> True | None \<Rightarrow> False)
        = (cell r c \<noteq> Null)" for r
    by (simp add: cell_def split: option.splits val.splits)
  then show ?thesis by (simp add: held_def)
qed


section \<open>Facts about grouping\<close>

lemma sum_bump: "sum_list (map snd (bump v gs)) = Suc (sum_list (map snd gs))"
  by (induction gs) auto

lemma sum_foldl_bump:
  "sum_list (map snd (foldl (\<lambda>gs r. bump (cell r c) gs) gs0 xs))
     = sum_list (map snd gs0) + length xs"
  by (induction xs arbitrary: gs0) (auto simp: sum_bump)

lemma groupCount_sum: "sum_list (map snd (groupCount xs c)) = length xs"
  by (simp add: groupCount_def sum_foldl_bump)

lemma keys_bump:
  "map fst (bump v gs) = (if v \<in> set (map fst gs) then map fst gs else map fst gs @ [v])"
  by (induction gs) force+

lemma distinct_bump: "distinct (map fst gs) \<Longrightarrow> distinct (map fst (bump v gs))"
  by (simp add: keys_bump)

lemma distinct_foldl_bump:
  "distinct (map fst gs0) \<Longrightarrow> distinct (map fst (foldl (\<lambda>gs r. bump (cell r c) gs) gs0 xs))"
  by (induction xs arbitrary: gs0) (auto simp: distinct_bump)

lemma distinct_groupCount: "distinct (map fst (groupCount xs c))"
  by (simp add: groupCount_def distinct_foldl_bump)

lemma map_of_bump:
  "map_of (bump v gs) k =
     (if k = v then Some (case map_of gs v of None \<Rightarrow> 1 | Some n \<Rightarrow> Suc n) else map_of gs k)"
  by (induction gs) auto

lemma map_of_foldl_bump:
  "map_of (foldl (\<lambda>gs r. bump (cell r c) gs) gs0 xs) v =
     (case map_of gs0 v of
        None \<Rightarrow> if with_key c v xs = [] then None else Some (length (with_key c v xs))
      | Some m \<Rightarrow> Some (m + length (with_key c v xs)))"
proof (induction xs arbitrary: gs0)
  case Nil
  then show ?case by (simp add: with_key_def split: option.splits)
next
  case (Cons x xs)
  show ?case
    unfolding foldl_Cons Cons.IH
    by (auto simp: map_of_bump with_key_def value_at_cell split: option.splits)
qed

lemma groupCount_count:
  assumes "g \<in> set (groupCount xs c)"
  shows "snd g = length (with_key c (fst g) xs)"
proof -
  have "map_of (groupCount xs c) (fst g) = Some (snd g)"
    using assms distinct_groupCount [of xs c] by simp
  then show ?thesis
    using map_of_foldl_bump [of c "[]" xs "fst g"]
    by (simp add: groupCount_def split: if_splits)
qed

lemma cell_group_row:
  "c \<noteq> ''book_count'' \<Longrightarrow> cell (group_row c g) ''book_count'' = Num (Fin (of_nat (snd g)))"
  by (simp add: cell_def group_row_def)

lemma descending_group_rows:
  assumes "c \<noteq> ''book_count''"
  shows "descending ''book_count'' (map (group_row c) G) = sorted_wrt (\<lambda>a b. snd b \<le> snd a) G"
  using assms by (simp add: descending_def value_at_cell sorted_wrt_map cell_group_row)

lemma inj_group_row: "inj (group_row c)"
  by (rule injI) (auto simp: group_row_def prod_eq_iff)

lemma ex_map_of_image:
  "set R \<subseteq> f ` A \<Longrightarrow> \<exists>G. R = map f G \<and> set G \<subseteq> A"
proof (induction R)
  case Nil
  then show ?case by simp
next
  case (Cons r R)
  then obtain G where "R = map f G" "set G \<subseteq> A" by auto
  moreover obtain g where "r = f g" "g \<in> A" using Cons.prems by auto
  ultimately have "r # R = map f (g # G) \<and> set (g # G) \<subseteq> A" by simp
  then show ?case by (rule exI [of _ "g # G"])
qed


section \<open>The sample tables are tables\<close>

lemma sample_tables_well_formed:
  "wf_dataset books3 \<and> wf_dataset gap_rated \<and> wf_dataset unrated \<and> wf_dataset worded
   \<and> wf_dataset only_rating_column \<and> wf_dataset no_rating_column \<and> wf_dataset two_authors
   \<and> wf_dataset one_three \<and> wf_dataset missing_author \<and> wf_dataset with_counts
   \<and> wf_dataset anonymous"
  by (simp add: wf_dataset_def books3_def gap_rated_def unrated_def worded_def
      only_rating_column_def no_rating_column_def two_authors_def one_three_def
      missing_author_def with_counts_def anonymous_def book_def)

lemma sample_engine_fields:
  "show_d sample_engine x = []"
  "parse_d sample_engine s = None"
  "add_d sample_engine a b = a + b"
  "div_d sample_engine q n = q / of_nat n"
  by (simp_all add: sample_engine_def)

lemma sample_engine_exact: "exact_arithmetic sample_engine"
  by (simp add: exact_arithmetic_def sample_engine_def)


section \<open>Claims\<close>

text \<open>
  C1 (as amended). On a frame that has the columns title and authors, and for a search
  term that contains none of the characters percent sign, underscore and backslash, the
  Search filter returns exactly the rows, in their order, in which the term occurs as a
  contiguous, case-sensitive substring of the string value of title or of authors, where
  the string value of a NaN cell is the text NaN.
\<close>

theorem filterContains_plain_term:
  assumes "''title'' \<in> set (columns df)" and "''authors'' \<in> set (columns df)"
    and "plain_term search"
  shows "filterContains E df search = Inr (rows_containing E search df)"
  using assms
  by (simp add: filterContains_def rows_containing_def escapeLikeRegex_wrapped col_like_plain)

theorem filterContains_plain_term_witness:
  "''title'' \<in> set (columns missing_author) \<and> ''authors'' \<in> set (columns missing_author)
   \<and> plain_term ''a''
   \<and> filterContains sample_engine missing_author ''a''
       = Inr [[(''title'', Str ''B''), (''authors'', Str ''NaN'')]]"
  using filterContains_plain_term [of missing_author "''a''" sample_engine]
  by (simp add: rows_containing_def missing_author_def occurs_in_def text_at_def plain_term_def
      esc_def sublist_code prefix_code)

text \<open>
  The claim as written fails on a term that holds a wildcard: the term of the one
  character underscore occurs in no title and no author of the three sample books, and the
  filter returns all three.
\<close>

theorem filterContains_wildcard_counterexample:
  "filterContains sample_engine books3 ''_'' = Inr (rows books3)
   \<and> rows_containing sample_engine ''_'' books3 = []
   \<and> length (rows books3) = 3"
  by (simp add: filterContains_def rows_containing_def books3_def book_def like_pattern_def
      esc_def col_like_def occurs_in_def text_at_def cell_def sublist_code prefix_code)

text \<open>
  C2 (as amended). For a column of the frame and any order in which the engine hands the
  rows to the sort, \<^verbatim>\<open>orderBy(desc(c)).limit(k)\<close> returns the first \<open>k\<close> rows of a
  descending arrangement of all rows of the table: the result has \<open>min k |D|\<close> rows, it is
  in descending order of the column, a row whose value is NaN stands before every row
  whose value is not, and rows of equal value stand in the order of their
  arrival, which is their order in the table only when the engine keeps that order.
\<close>

theorem orderByDescending_sorted:
  assumes "c \<in> set (columns df)" and "mset (arrival (rows df)) = mset (rows df)"
  shows "\<exists>R rest. orderByDescending arrival df c k = Inr R
           \<and> length R = min k (length (rows df))
           \<and> mset (R @ rest) = mset (rows df)
           \<and> descending c (R @ rest)
           \<and> (\<forall>i j. i < j \<and> j < length R \<and> value_at (R ! j) c = Num NaN
                  \<longrightarrow> value_at (R ! i) c = Num NaN)
           \<and> (\<forall>v. prefix (with_key c v R) (with_key c v (arrival (rows df))))"
proof -
  define S where "S = sort_desc c (arrival (rows df))"
  define R where "R = take k S"
  have perm: "mset S = mset (rows df)"
    using assms(2) by (simp add: S_def mset_sort_desc)
  have len: "length S = length (rows df)"
    using perm by (metis size_mset)
  have sorted: "descending c S"
    by (simp add: S_def descending_sort_desc)
  have 1: "orderByDescending arrival df c k = Inr R"
    using assms(1) by (simp add: orderByDescending_def R_def S_def)
  have 2: "length R = min k (length (rows df))"
    by (simp add: R_def len min.commute)
  have 3: "mset (R @ drop k S) = mset (rows df)"
    using perm by (simp add: R_def)
  have 4: "descending c (R @ drop k S)"
    using sorted by (simp add: R_def)
  have 5: "\<forall>i j. i < j \<and> j < length R \<and> value_at (R ! j) c = Num NaN
             \<longrightarrow> value_at (R ! i) c = Num NaN"
    using descending_NaN_first [OF descending_take [OF sorted, of k]]
    unfolding R_def by blast
  have 6: "\<forall>v. prefix (with_key c v R) (with_key c v (arrival (rows df)))"
    using with_key_take [of c _ k S] by (simp add: R_def S_def with_key_sort_desc)
  show ?thesis using 1 2 3 4 5 6 by blast
qed

theorem orderByDescending_sorted_witness:
  "''average_rating'' \<in> set (columns gap_rated)
   \<and> mset (rev (rows gap_rated)) = mset (rows gap_rated)
   \<and> orderByDescending rev gap_rated ''average_rating'' 2
       = Inr [book ''B'' ''Y'' (Num NaN), book ''C'' ''X'' (Num (Fin (9 / 2)))]
   \<and> (\<exists>R rest. orderByDescending rev gap_rated ''average_rating'' 2 = Inr R
           \<and> length R = min 2 (length (rows gap_rated))
           \<and> mset (R @ rest) = mset (rows gap_rated)
           \<and> descending ''average_rating'' (R @ rest)
           \<and> (\<forall>i j. i < j \<and> j < length R \<and> value_at (R ! j) ''average_rating'' = Num NaN
                  \<longrightarrow> value_at (R ! i) ''average_rating'' = Num NaN)
           \<and> (\<forall>v. prefix (with_key ''average_rating'' v R)
                        (with_key ''average_rating'' v (rev (rows gap_rated)))))"
proof -
  have h1: "''average_rating'' \<in> set (columns gap_rated)"
    by (simp add: gap_rated_def)
  have h2: "mset (rev (rows gap_rated)) = mset (rows gap_rated)"
    by simp
  have run: "orderByDescending rev gap_rated ''average_rating'' 2
       = Inr [book ''B'' ''Y'' (Num NaN), book ''C'' ''X'' (Num (Fin (9 / 2)))]"
    by (simp add: orderByDescending_def sort_desc_def gap_rated_def book_def cell_def)
  show ?thesis
    using h1 h2 run orderByDescending_sorted [of "''average_rating''" gap_rated rev 2] by blast
qed

text \<open>
  The claim as written fails in two ways. Where the engine hands the rows over in another
  order than that of the table, rows of equal value change places: books A and B have the
  same rating, A stands before B in the table, and the two rows returned are B, A. And a
  missing value is not placed last: of the ratings 3, empty and 4.5 the row with the empty
  rating is returned first.
\<close>

theorem orderByDescending_stable_counterexample:
  "orderByDescending rev books3 ''average_rating'' 2
     = Inr [book ''B'' ''Y'' (Num (Fin (9 / 2))), book ''A'' ''X'' (Num (Fin (9 / 2)))]
   \<and> mset (rev (rows books3)) = mset (rows books3)
   \<and> with_key ''average_rating'' (Num (Fin (9 / 2))) (rows books3)
     = [book ''A'' ''X'' (Num (Fin (9 / 2))), book ''B'' ''Y'' (Num (Fin (9 / 2)))]
   \<and> orderByDescending id gap_rated ''average_rating'' 1 = Inr [book ''B'' ''Y'' (Num NaN)]"
  by (simp add: orderByDescending_def sort_desc_def with_key_def value_at_def books3_def
      gap_rated_def book_def cell_def)

text \<open>
  C3 (as amended). For a grouping column of the frame, other than the count column's own
  name, and any order in which the engine hands the groups to the sort: there is one group
  for every different cell of the column, NaN among them, each counted with the number of
  rows that carry it, so the counts of all groups add up
  to the number of all rows of the table; the query returns the first \<open>k\<close> groups of a
  descending arrangement of all groups by count, \<open>min k\<close> (number of groups) of them, so
  the counts returned are non-increasing and no group left out has a larger count than
  one returned; groups of equal count stand in the order of their arrival.
\<close>

theorem groupCountTop_counts:
  assumes "c \<in> set (columns df)" and "c \<noteq> ''book_count''"
    and "\<forall>xs. mset (arrival xs) = mset xs"
  shows "\<exists>G rest. groupCountTop arrival df c k = Inr (map (group_row c) G)
           \<and> mset (G @ rest) = mset (groupCount (rows df) c)
           \<and> sorted_wrt (\<lambda>a b. snd b \<le> snd a) (G @ rest)
           \<and> length G = min k (length (groupCount (rows df) c))
           \<and> sum_list (map snd (groupCount (rows df) c)) = length (rows df)
           \<and> distinct (map fst (groupCount (rows df) c))
           \<and> (\<forall>g \<in> set (groupCount (rows df) c).
                  snd g = length (with_key c (fst g) (rows df)))
           \<and> (\<forall>v. prefix (with_key ''book_count'' v (map (group_row c) G))
                        (with_key ''book_count'' v
                           (arrival (map (group_row c) (groupCount (rows df) c)))))"
proof -
  define gs where "gs = groupCount (rows df) c"
  define S where "S = sort_desc ''book_count'' (arrival (map (group_row c) gs))"
  have top: "groupCountTop arrival df c k = Inr (take k S)"
    using assms(1,2)
    by (simp add: groupCountTop_def groupBy_count_def orderByDescending_def S_def gs_def)
  have perm: "mset S = image_mset (group_row c) (mset gs)"
    using assms(3) by (simp add: S_def mset_sort_desc)
  then have "set S = group_row c ` set gs"
    by (metis set_image_mset set_mset_mset)
  then obtain H where H: "S = map (group_row c) H"
    using ex_map_of_image [of S "group_row c" "set gs"] by blast
  have "image_mset (group_row c) (mset H) = image_mset (group_row c) (mset gs)"
    using perm H by simp
  then have "image_mset (the_inv (group_row c)) (image_mset (group_row c) (mset H))
      = image_mset (the_inv (group_row c)) (image_mset (group_row c) (mset gs))"
    by (simp only:)
  then have permH: "mset H = mset gs"
    by (simp add: multiset.map_comp comp_def the_inv_f_f [OF inj_group_row])
  define G where "G = take k H"
  have 1: "groupCountTop arrival df c k = Inr (map (group_row c) G)"
    using top H by (simp add: G_def take_map)
  have "descending ''book_count'' S"
    by (simp add: S_def descending_sort_desc)
  then have "descending ''book_count'' (map (group_row c) H)"
    by (simp only: H)
  then have sortedH: "sorted_wrt (\<lambda>a b. snd b \<le> snd a) H"
    using descending_group_rows [OF assms(2)] by simp
  have 2: "sorted_wrt (\<lambda>a b. snd b \<le> snd a) (G @ drop k H)"
    using sortedH by (simp add: G_def)
  have 3: "mset (G @ drop k H) = mset gs"
    using permH by (simp add: G_def)
  have "length H = length gs"
    using permH by (metis size_mset)
  then have 4: "length G = min k (length gs)"
    by (simp add: G_def min.commute)
  have 5: "\<forall>g \<in> set gs. snd g = length (with_key c (fst g) (rows df))"
    using groupCount_count by (simp add: gs_def)
  have "map (group_row c) G = take k S"
    using H by (simp add: G_def take_map)
  then have 6: "\<forall>v. prefix (with_key ''book_count'' v (map (group_row c) G))
                        (with_key ''book_count'' v (arrival (map (group_row c) gs)))"
    using with_key_take [of "''book_count''" _ k S] by (simp add: S_def with_key_sort_desc)
  show ?thesis
    using 1 2 3 4 5 6 groupCount_sum [of "rows df" c] distinct_groupCount [of "rows df" c]
    unfolding gs_def by blast
qed

theorem groupCountTop_counts_witness:
  "''authors'' \<in> set (columns one_three) \<and> ''authors'' \<noteq> ''book_count''
   \<and> (\<forall>xs :: row list. mset (rev xs) = mset xs)
   \<and> groupCount (rows one_three) ''authors'' = [(Str ''X'', 1), (Str ''Y'', 3)]
   \<and> groupCountTop rev one_three ''authors'' 1 = Inr [group_row ''authors'' (Str ''Y'', 3)]
   \<and> (\<exists>G rest. groupCountTop rev one_three ''authors'' 1 = Inr (map (group_row ''authors'') G)
           \<and> mset (G @ rest) = mset (groupCount (rows one_three) ''authors'')
           \<and> sorted_wrt (\<lambda>a b. snd b \<le> snd a) (G @ rest)
           \<and> length G = min 1 (length (groupCount (rows one_three) ''authors''))
           \<and> sum_list (map snd (groupCount (rows one_three) ''authors''))
               = length (rows one_three))"
proof -
  have h1: "''authors'' \<in> set (columns one_three)"
    by (simp add: one_three_def)
  have h2: "''authors'' \<noteq> ''book_count''"
    by simp
  have h3: "\<forall>xs :: row list. mset (rev xs) = mset xs"
    by simp
  have groups: "groupCount (rows one_three) ''authors'' = [(Str ''X'', 1), (Str ''Y'', 3)]"
    by (simp add: groupCount_def one_three_def cell_def)
  have run: "groupCountTop rev one_three ''authors'' 1 = Inr [group_row ''authors'' (Str ''Y'', 3)]"
    using h1
    by (simp add: groupCountTop_def groupBy_count_def orderByDescending_def sort_desc_def
        groups group_row_def cell_def)
  show ?thesis
    using h1 h2 h3 groups run groupCountTop_counts [of "''authors''" one_three rev 1] by blast
qed

text \<open>
  The claim as written fails on a table whose one row has an empty author: the missing
  author is a group of its own with count 1, so the counts add up to 1, and no row has an
  author.
\<close>

theorem groupCountTop_counterexample:
  "groupCount (rows anonymous) ''authors'' = [(Num NaN, 1)]
   \<and> groupCountTop id anonymous ''authors'' 10 = Inr [group_row ''authors'' (Num NaN, 1)]
   \<and> present anonymous ''authors'' = 0"
  by (simp add: groupCount_def groupCountTop_def groupBy_count_def orderByDescending_def
      sort_desc_def present_def anonymous_def group_row_def cell_def)

text \<open>
  C4 (as amended). For every table and every column: when the column is in the schema, the
  average is NaN as soon as one value of the column is NaN, so a NaN cell is not ignored;
  otherwise it is the engine's sum of the non-null numeric values of
  the column divided by their number, null cells counting neither in the sum nor in the
  divisor, which is their arithmetic mean where the engine's arithmetic is exact; and it is
  null when the column has no such value. When the column is not in the schema, it fails
  with \<open>ColumnNotFound\<close>.
\<close>

theorem average_of_column:
  "average E df c =
     (if c \<in> set (columns df) then Inr (mean_of E (readings E c (rows df)))
      else Inl (ColumnNotFound c))
   \<and> (exact_arithmetic E \<and> readings E c (rows df) \<noteq> [] \<and> NaN \<notin> set (readings E c (rows df))
        \<longrightarrow> average E df c =
             (if c \<in> set (columns df)
              then Inr (Some (Fin (sum_list (numbers (readings E c (rows df)))
                                    / of_nat (length (numbers (readings E c (rows df)))))))
              else Inl (ColumnNotFound c)))"
proof -
  have 1: "average E df c =
     (if c \<in> set (columns df) then Inr (mean_of E (readings E c (rows df)))
      else Inl (ColumnNotFound c))"
    using average_in_schema [of c df E] by (simp add: average_def)
  show ?thesis
    using 1 mean_of_exact [of E "readings E c (rows df)"] by simp
qed

theorem average_of_column_witness:
  "exact_arithmetic sample_engine
   \<and> readings sample_engine ''average_rating'' (rows books3) = [Fin (9 / 2), Fin (9 / 2), Fin 3]
   \<and> average sample_engine books3 ''average_rating'' = Inr (Some (Fin 4))
   \<and> average sample_engine worded ''average_rating'' = Inr None
   \<and> average sample_engine no_rating_column ''average_rating''
       = Inl (ColumnNotFound ''average_rating'')"
proof -
  have r: "readings sample_engine ''average_rating'' (rows books3)
      = [Fin (9 / 2), Fin (9 / 2), Fin 3]"
    by (simp add: readings_def books3_def book_def)
  have w: "readings sample_engine ''average_rating'' (rows worded) = []"
    by (simp add: readings_def worded_def book_def sample_engine_def)
  have c3: "''average_rating'' \<in> set (columns books3)"
    and cw: "''average_rating'' \<in> set (columns worded)"
    and cn: "''average_rating'' \<notin> set (columns no_rating_column)"
    by (simp_all add: books3_def worded_def no_rating_column_def)
  show ?thesis
    using average_of_column [of sample_engine books3 "''average_rating''"]
      average_of_column [of sample_engine worded "''average_rating''"]
      average_of_column [of sample_engine no_rating_column "''average_rating''"]
      sample_engine_exact
    by (simp add: r w c3 cw cn mean_of_def sample_engine_fields)
qed

text \<open>
  The claim as written fails on a table with an empty rating: of the ratings 4.5 and empty
  the average is NaN, and not 4.5, the mean of the one rating that is there.
\<close>

theorem average_counterexample:
  "average sample_engine with_counts ''average_rating'' = Inr (Some NaN)
   \<and> present with_counts ''average_rating'' = 1
   \<and> value_at (hd (rows with_counts)) ''average_rating'' = Num (Fin (9 / 2))"
  by (simp add: average_def avg_eval_def avg_update_def present_def value_at_def
      with_counts_def book_def cell_def)



text \<open>
  C6 (as amended). For every table whose schema lacks the column average_rating, the
  Dashboard view renders its title, the preview of the first 10 rows and the two
  subheaders, and then ends with \<open>ColumnNotFound\<close> for the average; the average is the
  first statistic computed, so the row count and the distinct count are neither computed
  nor rendered.
\<close>

theorem dashboard_without_rating:
  assumes "''average_rating'' \<notin> set (columns df)"
  shows "dashboard E df =
           ([Title ''Book Ratings Dashboard'', Subheader ''Dataset Preview'',
             Dataframe (columns df) (take 10 (rows df)), Subheader ''Summary Statistics''],
            Some (ColumnNotFound ''average_rating''))"
  using assms by (simp add: dashboard_def average_def)

theorem dashboard_without_rating_witness:
  "''average_rating'' \<notin> set (columns two_authors)
   \<and> dashboard sample_engine two_authors =
       ([Title ''Book Ratings Dashboard'', Subheader ''Dataset Preview'',
         Dataframe (columns two_authors) (take 10 (rows two_authors)),
         Subheader ''Summary Statistics''],
        Some (ColumnNotFound ''average_rating''))"
  using dashboard_without_rating [of two_authors sample_engine]
  by (simp add: two_authors_def)

text \<open>
  The claim as written fails on every table without the column: the run ends at the
  average, which is computed before the two counts, and no metric is rendered.
\<close>

theorem dashboard_without_rating_counterexample:
  "loaded no_rating_column
   \<and> ''average_rating'' \<notin> set (columns no_rating_column)
   \<and> snd (dashboard sample_engine no_rating_column) = Some (ColumnNotFound ''average_rating'')
   \<and> filter is_metric (fst (dashboard sample_engine no_rating_column)) = []"
  by (simp add: loaded_def no_rating_column_def dashboard_def average_def)

text \<open>
  C9 (as amended). For every table whose schema has the columns average_rating and authors
  and whose average_rating has at least one cell with a numeric reading (a number, a NaN,
  or a string that the engine casts to one), the Dashboard view ends without failure and
  renders the first 10 rows in their order, the metric of the average (with two decimals,
  or the text nan when the average is NaN), the metric of the row count, and the
  bestsellers metric: the number of ratings_count cells that are not SQL null, NaN cells
  counted, in decimal, when that column is in the schema, and the marker N/A when it is
  not.
\<close>

theorem dashboard_payload:
  assumes "''average_rating'' \<in> set (columns df)" and "''authors'' \<in> set (columns df)"
    and "readings E ''average_rating'' (rows df) \<noteq> []"
  shows "\<exists>a. mean_of E (readings E ''average_rating'' (rows df)) = Some a
           \<and> snd (dashboard E df) = None
           \<and> Dataframe (columns df) (take 10 (rows df)) \<in> set (fst (dashboard E df))
           \<and> Metric ''Average Rating'' (fmt2 a) \<in> set (fst (dashboard E df))
           \<and> Metric ''Total Books'' (MInt (length (rows df))) \<in> set (fst (dashboard E df))
           \<and> Metric ''Bestsellers''
                (MStr (if ''ratings_count'' \<in> set (columns df)
                       then str_nat (held df ''ratings_count'') else ''N/A''))
               \<in> set (fst (dashboard E df))"
proof -
  obtain a where a: "mean_of E (readings E ''average_rating'' (rows df)) = Some a"
    using assms(3) mean_of_None [of E "readings E ''average_rating'' (rows df)"] by fastforce
  have avg: "average E df ''average_rating'' = Inr (Some a)"
    using average_in_schema [OF assms(1), of E] a by simp
  show ?thesis
    using a avg assms(2)
    by (simp add: dashboard_def distinctCount_def count_col_def count_rows_def held_cell)
qed

theorem dashboard_payload_witness:
  "''average_rating'' \<in> set (columns with_counts) \<and> ''authors'' \<in> set (columns with_counts)
   \<and> readings sample_engine ''average_rating'' (rows with_counts) = [Fin (9 / 2), NaN]
   \<and> snd (dashboard sample_engine with_counts) = None
   \<and> Metric ''Average Rating'' (MStr ''nan'') \<in> set (fst (dashboard sample_engine with_counts))
   \<and> Metric ''Total Books'' (MInt 2) \<in> set (fst (dashboard sample_engine with_counts))
   \<and> Metric ''Bestsellers'' (MStr ''2'') \<in> set (fst (dashboard sample_engine with_counts))"
proof -
  have h1: "''average_rating'' \<in> set (columns with_counts)"
    and h2: "''authors'' \<in> set (columns with_counts)"
    by (simp_all add: with_counts_def)
  have rd: "readings sample_engine ''average_rating'' (rows with_counts) = [Fin (9 / 2), NaN]"
    by (simp add: readings_def with_counts_def book_def)
  have h3: "readings sample_engine ''average_rating'' (rows with_counts) \<noteq> []"
    by (simp add: rd)
  have mean: "mean_of sample_engine (readings sample_engine ''average_rating'' (rows with_counts))
      = Some NaN"
    by (simp add: rd mean_of_def)
  have nn: "held with_counts ''ratings_count'' = 2"
    by (simp add: held_def with_counts_def book_def)
  have len: "length (rows with_counts) = 2"
    by (simp add: with_counts_def)
  have two: "str_nat 2 = ''2''"
    by (simp add: str_nat.simps digit_def)
  have rc: "''ratings_count'' \<in> set (columns with_counts)"
    by (simp add: with_counts_def)
  from dashboard_payload [OF h1 h2 h3]
  obtain a where a: "Some NaN = Some a"
    and page: "snd (dashboard sample_engine with_counts) = None"
      "Metric ''Average Rating'' (fmt2 a) \<in> set (fst (dashboard sample_engine with_counts))"
      "Metric ''Total Books'' (MInt (length (rows with_counts)))
         \<in> set (fst (dashboard sample_engine with_counts))"
      "Metric ''Bestsellers''
         (MStr (if ''ratings_count'' \<in> set (columns with_counts)
                then str_nat (held with_counts ''ratings_count'') else ''N/A''))
         \<in> set (fst (dashboard sample_engine with_counts))"
    unfolding mean by blast
  from a have "a = NaN" by simp
  with page show ?thesis
    using h1 h2 rd by (simp add: nn len two rc)
qed

text \<open>
  The claim as written fails in three ways. On the table with an empty rating and an empty
  ratings count the average shown is nan and the bestsellers metric is 2, the empty cell
  counted, where one ratings count is there. On the three sample books the metrics rendered
  are the average, the number of rows and the bestsellers marker, while the number of
  distinct authors, 2, is computed and shown nowhere. And on a loaded table whose rating is
  a word the run ends before any metric is rendered.
\<close>

theorem dashboard_payload_counterexample:
  "filter is_metric (fst (dashboard sample_engine with_counts)) =
       [Metric ''Average Rating'' (MStr ''nan''), Metric ''Total Books'' (MInt 2),
        Metric ''Bestsellers'' (MStr ''2'')]
   \<and> present with_counts ''ratings_count'' = 1
   \<and> distinctCount books3 ''authors'' = Inr 2
   \<and> filter is_metric (fst (dashboard sample_engine books3)) =
       [Metric ''Average Rating'' (Fixed2 4), Metric ''Total Books'' (MInt 3),
        Metric ''Bestsellers'' (MStr ''N/A'')]
   \<and> loaded worded
   \<and> snd (dashboard sample_engine worded) = Some FormatTypeError
   \<and> filter is_metric (fst (dashboard sample_engine worded)) = []"
  by (simp add: loaded_def with_counts_def books3_def worded_def book_def dashboard_def
      average_def distinctCount_def count_col_def count_rows_def present_def cell_def
      avg_eval_def avg_update_def sample_engine_def str_nat.simps digit_def)

text \<open>
  C10 (as amended). For every table whose schema has the columns average_rating and
  authors and in which no average_rating cell has a numeric reading (every cell is SQL
  null or a string that is no number), the Dashboard view renders the preview and the
  empty row of three metric columns and then fails while formatting the average, which is
  null, with the two-decimal format; no metric is rendered.
\<close>

theorem dashboard_no_reading:
  assumes "''average_rating'' \<in> set (columns df)" and "''authors'' \<in> set (columns df)"
    and "readings E ''average_rating'' (rows df) = []"
  shows "dashboard E df =
           ([Title ''Book Ratings Dashboard'', Subheader ''Dataset Preview'',
             Dataframe (columns df) (take 10 (rows df)), Subheader ''Summary Statistics'',
             Columns 3],
            Some FormatTypeError)"
proof -
  have "average E df ''average_rating'' = Inr None"
    using average_in_schema [OF assms(1), of E] assms(3) by (simp add: mean_of_def)
  then show ?thesis
    using assms(2)
    by (simp add: dashboard_def distinctCount_def count_col_def split: sum.splits)
qed

theorem dashboard_no_reading_witness:
  "''average_rating'' \<in> set (columns worded) \<and> ''authors'' \<in> set (columns worded)
   \<and> readings sample_engine ''average_rating'' (rows worded) = []
   \<and> loaded worded
   \<and> dashboard sample_engine worded =
       ([Title ''Book Ratings Dashboard'', Subheader ''Dataset Preview'',
         Dataframe (columns worded) (take 10 (rows worded)),
         Subheader ''Summary Statistics'', Columns 3],
        Some FormatTypeError)"
proof -
  have h: "''average_rating'' \<in> set (columns worded)" "''authors'' \<in> set (columns worded)"
    "readings sample_engine ''average_rating'' (rows worded) = []"
    by (simp_all add: worded_def readings_def book_def sample_engine_def)
  have l: "loaded worded"
    by (simp add: loaded_def worded_def)
  show ?thesis
    using dashboard_no_reading [OF h] h l by simp
qed

text \<open>
  The claim as written fails on a table whose one rating is empty: the cell is NaN and not
  null, the average is NaN, and the view shows it as nan beside the other two metrics and
  ends without failure. It also fails on a table that has the rating column, its one rating
  a word, and no authors column: the run ends earlier, at the count of distinct authors,
  with \<open>ColumnNotFound\<close>, and the average is never formatted.
\<close>

theorem dashboard_no_reading_counterexample:
  "loaded unrated
   \<and> dashboard sample_engine unrated =
       ([Title ''Book Ratings Dashboard'', Subheader ''Dataset Preview'',
         Dataframe [''title'', ''authors'', ''average_rating'']
           [[(''title'', Str ''A''), (''authors'', Str ''X''), (''average_rating'', Num NaN)]],
         Subheader ''Summary Statistics'', Columns 3,
         Metric ''Average Rating'' (MStr ''nan''), Metric ''Total Books'' (MInt 1),
         Metric ''Bestsellers'' (MStr ''N/A'')],
        None)
   \<and> loaded only_rating_column
   \<and> dashboard sample_engine only_rating_column =
       ([Title ''Book Ratings Dashboard'', Subheader ''Dataset Preview'',
         Dataframe [''average_rating''] [[(''average_rating'', Str ''abc'')]],
         Subheader ''Summary Statistics''],
        Some (ColumnNotFound ''authors''))"
  by (simp add: loaded_def unrated_def only_rating_column_def book_def dashboard_def
      average_def distinctCount_def count_rows_def cell_def avg_eval_def avg_update_def
      sample_engine_def)

text \<open>
  C8 (as amended). Once Submit is pressed, the Feedback view shows the acknowledgment when
  name and text are both non-empty, and otherwise the one fixed warning "Please fill in
  all fields.", which names no field; before Submit is pressed it shows neither. The view
  returns nothing but the page, so no input is kept.
\<close>

theorem feedback_view_payload:
  "feedback_view name feedback submit =
     ([Title ''Feedback Form'', TextInput ''Your Name'', TextArea ''Your Feedback'',
       Button ''Submit'']
      @ (if submit
         then [if name \<noteq> [] \<and> feedback \<noteq> []
               then Success ''Thank you for your feedback! ''
               else Warning ''Please fill in all fields.'']
         else []),
      None)"
  by (simp add: feedback_view_def)

theorem feedback_view_payload_witness:
  "feedback_view ''Ann'' ''hello'' True =
     ([Title ''Feedback Form'', TextInput ''Your Name'', TextArea ''Your Feedback'',
       Button ''Submit'', Success ''Thank you for your feedback! ''], None)
   \<and> feedback_view ''Ann'' ''hello'' False =
     ([Title ''Feedback Form'', TextInput ''Your Name'', TextArea ''Your Feedback'',
       Button ''Submit''], None)"
  using feedback_view_payload [of "''Ann''" "''hello''" True]
    feedback_view_payload [of "''Ann''" "''hello''" False]
  by simp

text \<open>
  The claim as written fails on the empty name with the feedback hello: the warning is the
  fixed sentence, in which the word name does not occur, and it is the same warning that a
  missing feedback text gets.
\<close>

theorem feedback_view_counterexample:
  "feedback_view [] ''hello'' True =
     ([Title ''Feedback Form'', TextInput ''Your Name'', TextArea ''Your Feedback'',
       Button ''Submit'', Warning ''Please fill in all fields.''], None)
   \<and> \<not> sublist ''name'' ''Please fill in all fields.''
   \<and> \<not> sublist ''Name'' ''Please fill in all fields.''
   \<and> feedback_view ''Ann'' [] True = feedback_view [] ''hello'' True"
  by (simp add: feedback_view_def sublist_code prefix_code)

end
